theory Spec2Isabelle
  imports Main
begin

section \<open>Wire types (lib/api.ts)\<close>

text \<open>
  The TypeScript types of the wire contract. An optional or nullable field
  (\<^verbatim>\<open>products?: ProductCard[] | null\<close>) is an \<open>option\<close>: \<open>None\<close> stands for both
  \<^verbatim>\<open>undefined\<close> (the field is absent) and \<^verbatim>\<open>null\<close>, which the only operator the
  source applies to such a field, \<^verbatim>\<open>??\<close>, does not tell apart. \<^verbatim>\<open>price_cents\<close> is a
  JavaScript number; no function modelled here computes with it.
\<close>

record ProductCard =
  p_id :: string
  title :: "string option"
  brand :: "string option"
  image_url :: "string option"
  price_cents :: "int option"
  currency :: "string option"
  in_stock :: "bool option"
  url :: "string option"
  badges :: "string list option"

datatype Role = User | Assistant

text \<open>One entry of the outbound context: \<^verbatim>\<open>{ role: m.role, content: m.content }\<close>.\<close>

type_synonym ContextEntry = "Role \<times> string"

record AgentChatRequest =
  message :: string
  "context" :: "ContextEntry list"

datatype Intent = chitchat | text_recommendation | image_search | catalog_qna

record AgentChatResponse =
  intent :: Intent
  answer :: string
  resp_products :: "ProductCard list option"
  resp_refinements :: "string list option"

record UploadResponse =
  upload_id :: string
  up_url :: string

datatype File = File string

section \<open>The HTTP helper\<close>

text \<open>
  What \<^verbatim>\<open>fetch\<close> hands back once it resolves: the status, what \<^verbatim>\<open>res.text()\<close>
  gives (\<open>None\<close> when that promise rejects) and what \<^verbatim>\<open>res.json()\<close> gives
  (\<open>Inl\<close> the message of the error it rejects with). A rejected promise or a
  thrown \<^verbatim>\<open>Error\<close> is \<open>Inl\<close> of its message throughout.
\<close>

record 'a Response =
  status :: nat
  body_text :: "string option"
  body_json :: "string + 'a"

text \<open>\<^verbatim>\<open>res.ok\<close>: the status is in the range 200 to 299.\<close>

definition ok :: "'a Response \<Rightarrow> bool" where
  "ok res = (200 \<le> status res \<and> status res \<le> 299)"

text \<open>The decimal digits of a number, as the template literal prints \<^verbatim>\<open>res.status\<close>.\<close>

definition digit_char :: "nat \<Rightarrow> char" where
  "digit_char d = ''0123456789'' ! d"

fun string_of_nat :: "nat \<Rightarrow> string" where
  "string_of_nat n =
     (if n < 10 then [digit_char n]
      else string_of_nat (n div 10) @ [digit_char (n mod 10)])"

declare string_of_nat.simps [simp del]

text \<open>
  \<^verbatim>\<open>
  async function http<T>(input, init): Promise<T> {
    const res = await fetch(input, init);
    if (!res.ok) {
      const text = await res.text().catch(() => "");
      throw new Error(text || `Request failed: ${res.status}`);
    }
    return (await res.json()) as T;
  }
  \<close>
  The argument is what \<^verbatim>\<open>await fetch(input, init)\<close> produced: \<open>Inl\<close> when fetch
  itself rejects (network failure, aborted signal), which \<^verbatim>\<open>http\<close> lets through.
\<close>

definition http :: "string + 'a Response \<Rightarrow> string + 'a" where
  "http fetched =
     (case fetched of
        Inl e \<Rightarrow> Inl e
      | Inr res \<Rightarrow>
          if \<not> ok res then
            (let text = (case body_text res of None \<Rightarrow> [] | Some t \<Rightarrow> t)
             in Inl (if text \<noteq> [] then text
                     else ''Request failed: '' @ string_of_nat (status res)))
          else body_json res)"

text \<open>
  The three calls of \<^verbatim>\<open>ApiClient\<close>. Each builds its request and returns what
  \<^verbatim>\<open>http\<close> returns for it; \<open>fetch\<close> is the platform's function, a parameter here.
  \<open>signal\<close> is the identity of the \<^verbatim>\<open>AbortController\<close> whose signal is passed.
\<close>

datatype HttpBody = JsonBody AgentChatRequest | FormBody File | NoBody

record HttpRequest =
  req_url :: string
  req_method :: string
  req_body :: HttpBody
  req_signal :: "nat option"

definition chat ::
  "(HttpRequest \<Rightarrow> string + AgentChatResponse Response) \<Rightarrow> AgentChatRequest \<Rightarrow> nat option
     \<Rightarrow> string + AgentChatResponse" where
  "chat fetch body signal =
     http (fetch \<lparr>req_url = ''/api/agent/chat'', req_method = ''POST'',
                  req_body = JsonBody body, req_signal = signal\<rparr>)"

definition uploadImage ::
  "(HttpRequest \<Rightarrow> string + UploadResponse Response) \<Rightarrow> File \<Rightarrow> nat option
     \<Rightarrow> string + UploadResponse" where
  "uploadImage fetch file signal =
     http (fetch \<lparr>req_url = ''/api/uploads'', req_method = ''POST'',
                  req_body = FormBody file, req_signal = signal\<rparr>)"

text \<open>
  \<^verbatim>\<open>getProduct\<close>: \<open>isServer\<close> is \<^verbatim>\<open>typeof window === "undefined"\<close> and \<open>env_base\<close> is
  \<^verbatim>\<open>process.env.API_BASE_URL\<close> (\<open>None\<close> when unset; \<^verbatim>\<open>||\<close> also skips the empty
  string). The result type \<open>'d\<close> is \<^verbatim>\<open>ProductDetail\<close>.
\<close>

definition getProduct ::
  "(HttpRequest \<Rightarrow> string + 'd Response) \<Rightarrow> bool \<Rightarrow> string option \<Rightarrow> string \<Rightarrow> nat option
     \<Rightarrow> string + 'd" where
  "getProduct fetch isServer env_base productId signal =
     (let base = (if isServer
                  then (case env_base of
                          None \<Rightarrow> ''http://localhost:8000''
                        | Some b \<Rightarrow> if b = [] then ''http://localhost:8000'' else b)
                  else []);
          url = base @ ''/products/'' @ productId
      in http (fetch \<lparr>req_url = url, req_method = ''GET'',
                       req_body = NoBody, req_signal = signal\<rparr>))"

section \<open>The session store (lib/useAgentChat.ts)\<close>

record UiMessage =
  m_id :: string
  role :: Role
  content :: string

record AgentState =
  messages :: "UiMessage list"
  products :: "ProductCard list"
  refinements :: "string list"
  isLoading :: bool
  lastUploadId :: "string option"

text \<open>The argument of \<^verbatim>\<open>useState\<close>: the state of a freshly mounted chat view.\<close>

definition initialState :: AgentState where
  "initialState =
     \<lparr>messages =
        [\<lparr>m_id = ''m-welcome'', role = Assistant,
          content = ''Hi! I can help you find products. What are you looking for today?''\<rparr>],
      products = [],
      refinements = [''recommendations'', ''image search'', ''product details''],
      isLoading = False,
      lastUploadId = None\<rparr>"

subsection \<open>State updaters\<close>

text \<open>
  Every \<^verbatim>\<open>setState\<close> of the hook is given an updater \<^verbatim>\<open>(prev) => ...\<close>; React applies
  the updaters to the state cell in the order of the calls. The updaters are the
  functions below, from state to state.
\<close>

definition appendMessage :: "UiMessage \<Rightarrow> AgentState \<Rightarrow> AgentState" where
  "appendMessage msg prev = prev\<lparr>messages := messages prev @ [msg]\<rparr>"

text \<open>
  \<^verbatim>\<open>
  appendMessage({ id: crypto.randomUUID(), role: "assistant", content: resp.answer });
  setState((prev) => ({ ...prev,
    products: resp.products ?? [],
    refinements: resp.refinements ?? prev.refinements }));
  \<close>
  \<open>uid\<close> is what \<^verbatim>\<open>crypto.randomUUID()\<close> returns.
\<close>

definition handleAgentResponse :: "AgentChatResponse \<Rightarrow> string \<Rightarrow> AgentState \<Rightarrow> AgentState" where
  "handleAgentResponse resp uid prev =
     (let prev1 = appendMessage \<lparr>m_id = uid, role = Assistant, content = answer resp\<rparr> prev
      in prev1\<lparr>products := (case resp_products resp of None \<Rightarrow> [] | Some ps \<Rightarrow> ps),
                refinements := (case resp_refinements resp of
                                  None \<Rightarrow> refinements prev1
                                | Some rs \<Rightarrow> rs)\<rparr>)"

subsection \<open>The context window\<close>

text \<open>
  \<^verbatim>\<open>xs.slice(-k)\<close>: the elements from index \<open>max (length xs - k) 0\<close> on; the
  subtraction on \<open>nat\<close> stops at 0 as the \<open>max\<close> does.
\<close>

definition slice_last :: "nat \<Rightarrow> 'a list \<Rightarrow> 'a list" where
  "slice_last k xs = drop (length xs - k) xs"

text \<open>
  \<^verbatim>\<open>state.messages.slice(-10).map((m) => ({ role: m.role, content: m.content }))\<close>,
  for the value \<open>st\<close> that the variable \<^verbatim>\<open>state\<close> has where the expression runs.
\<close>

definition contextOf :: "AgentState \<Rightarrow> ContextEntry list" where
  "contextOf st = map (\<lambda>m. (role m, content m)) (slice_last 10 (messages st))"

subsection \<open>Memoised callbacks\<close>

text \<open>
  The body of \<^verbatim>\<open>useAgentChat\<close> runs once per render. \<^verbatim>\<open>useCallback(fn, deps)\<close> returns
  the function object it returned at the previous render when every dependency is
  the same object as then, and the new \<^verbatim>\<open>fn\<close> otherwise. A function object is
  modelled by the render that created it (its identity), the identities of the
  dependencies it was created with, and the bindings of that render which its body
  reads (its environment).
\<close>

record 'env Callback =
  created :: nat
  deps :: "nat list"
  env :: 'env

definition useCallback :: "'env Callback option \<Rightarrow> nat \<Rightarrow> 'env \<Rightarrow> nat list \<Rightarrow> 'env Callback" where
  "useCallback prev render e ds =
     (case prev of
        None \<Rightarrow> \<lparr>created = render, deps = ds, env = e\<rparr>
      | Some cb \<Rightarrow> if deps cb = ds then cb else \<lparr>created = render, deps = ds, env = e\<rparr>)"

text \<open>
  The six callbacks of the hook. \<^verbatim>\<open>sendText\<close> and \<^verbatim>\<open>uploadAndSearch\<close> read the
  render's variable \<^verbatim>\<open>state\<close> (in \<^verbatim>\<open>state.messages.slice(-10)\<close>); \<^verbatim>\<open>refineWith\<close> reads
  the render's \<^verbatim>\<open>sendText\<close>; the others read nothing that changes between renders
  (\<^verbatim>\<open>setState\<close> and \<^verbatim>\<open>abortRef\<close> are the same objects at every render).
\<close>

record Callbacks =
  cancel_cb :: "unit Callback"
  appendMessage_cb :: "unit Callback"
  sendText_cb :: "AgentState Callback"
  uploadAndSearch_cb :: "AgentState Callback"
  refineWith_cb :: "AgentState Callback Callback"
  handleAgentResponse_cb :: "unit Callback"

text \<open>
  One render of the hook: \<open>n\<close> is the number of the render, \<open>st\<close> the value
  \<^verbatim>\<open>useState\<close> returns in it, \<open>prev\<close> the callbacks of the previous render (\<open>None\<close> at
  the first one). The dependency arrays are the source's:
  \<^verbatim>\<open>
  cancel              []
  appendMessage       []
  sendText            [appendMessage]
  uploadAndSearch     [appendMessage]
  refineWith          [sendText]
  handleAgentResponse [appendMessage]
  \<close>
\<close>

definition useAgentChat :: "nat \<Rightarrow> AgentState \<Rightarrow> Callbacks option \<Rightarrow> Callbacks" where
  "useAgentChat n st prev =
     (let cancel = useCallback (map_option cancel_cb prev) n () [];
          appendMessage = useCallback (map_option appendMessage_cb prev) n () [];
          sendText =
            useCallback (map_option sendText_cb prev) n st [created appendMessage];
          uploadAndSearch =
            useCallback (map_option uploadAndSearch_cb prev) n st [created appendMessage];
          refineWith =
            useCallback (map_option refineWith_cb prev) n sendText [created sendText];
          handleAgentResponse =
            useCallback (map_option handleAgentResponse_cb prev) n () [created appendMessage]
      in \<lparr>cancel_cb = cancel, appendMessage_cb = appendMessage, sendText_cb = sendText,
          uploadAndSearch_cb = uploadAndSearch, refineWith_cb = refineWith,
          handleAgentResponse_cb = handleAgentResponse\<rparr>)"

subsection \<open>The mounted hook and its suspended calls\<close>

text \<open>
  \<^verbatim>\<open>sendText\<close> and \<^verbatim>\<open>uploadAndSearch\<close> are \<^verbatim>\<open>async\<close>: a call runs up to its
  \<^verbatim>\<open>await\<close>, where it is suspended until the awaited promise settles, and its
  continuation runs then. A suspended call is kept with what its continuation still
  needs: for a call of \<^verbatim>\<open>uploadAndSearch\<close> waiting for the upload, the value of the
  closure's variable \<^verbatim>\<open>state\<close>; for a call waiting for \<^verbatim>\<open>ApiClient.chat\<close>, which of the
  two functions it is in (their \<^verbatim>\<open>catch\<close> branches differ in the fallback text).
\<close>

datatype Origin = InSendText | InUploadAndSearch

datatype Await = AwaitChat Origin | AwaitUpload AgentState

text \<open>A request handed to the network, with the controller whose signal it carries.\<close>

datatype Outbound = ChatCall AgentChatRequest nat | UploadCall File nat

text \<open>
  The mounted hook: the \<^verbatim>\<open>useState\<close> cell, the \<^verbatim>\<open>useRef\<close> cell \<^verbatim>\<open>abortRef\<close> (a
  controller is its number in order of creation), the callbacks of the last render,
  the controllers whose \<^verbatim>\<open>abort()\<close> has been called, the suspended calls (each call
  creates its own controller, which names it) and the requests sent so far.
\<close>

record Session =
  state :: AgentState
  abortRef :: "nat option"
  callbacks :: Callbacks
  renders :: nat
  controllers :: nat
  aborted :: "nat list"
  pending :: "(nat \<times> Await) list"
  sent :: "Outbound list"

definition initialSession :: Session where
  "initialSession =
     \<lparr>state = initialState, abortRef = None,
      callbacks = useAgentChat 0 initialState None, renders = 0,
      controllers = 0, aborted = [], pending = [], sent = []\<rparr>"

definition setState :: "(AgentState \<Rightarrow> AgentState) \<Rightarrow> Session \<Rightarrow> Session" where
  "setState f w = w\<lparr>state := f (state w)\<rparr>"

text \<open>\<^verbatim>\<open>abortRef.current?.abort()\<close>\<close>

definition abortCurrent :: "Session \<Rightarrow> Session" where
  "abortCurrent w =
     (case abortRef w of None \<Rightarrow> w | Some c \<Rightarrow> w\<lparr>aborted := aborted w @ [c]\<rparr>)"

text \<open>
  \<^verbatim>\<open>const ac = new AbortController(); abortRef.current = ac;\<close> The new controller is
  number \<open>controllers w\<close>.
\<close>

definition newController :: "Session \<Rightarrow> Session" where
  "newController w = w\<lparr>abortRef := Some (controllers w), controllers := Suc (controllers w)\<rparr>"

definition suspend :: "nat \<Rightarrow> Await \<Rightarrow> Session \<Rightarrow> Session" where
  "suspend ac a w = w\<lparr>pending := filter (\<lambda>p. fst p \<noteq> ac) (pending w) @ [(ac, a)]\<rparr>"

definition finish :: "nat \<Rightarrow> Session \<Rightarrow> Session" where
  "finish ac w = w\<lparr>pending := filter (\<lambda>p. fst p \<noteq> ac) (pending w)\<rparr>"

definition cancel :: "Session \<Rightarrow> Session" where
  "cancel w = (abortCurrent w)\<lparr>abortRef := None\<rparr>"

text \<open>The text of a \<^verbatim>\<open>catch\<close> branch: \<^verbatim>\<open>err.message || "..."\<close>.\<close>

fun fallback :: "Origin \<Rightarrow> string" where
  "fallback InSendText = ''Something went wrong''"
| "fallback InUploadAndSearch = ''Upload failed''"

definition errorMessage :: "Origin \<Rightarrow> string \<Rightarrow> string \<Rightarrow> UiMessage" where
  "errorMessage origin uid err =
     \<lparr>m_id = uid, role = Assistant, content = (if err \<noteq> [] then err else fallback origin)\<rparr>"

text \<open>
  \<^verbatim>\<open>sendText\<close> up to its \<^verbatim>\<open>await\<close>. \<open>st\<close> is the closure's variable \<^verbatim>\<open>state\<close>, \<open>uid\<close>
  what \<^verbatim>\<open>crypto.randomUUID()\<close> returns.
\<close>

definition sendText :: "AgentState \<Rightarrow> string \<Rightarrow> string \<Rightarrow> Session \<Rightarrow> Session" where
  "sendText st text uid w =
     (let w1 = setState (appendMessage \<lparr>m_id = uid, role = User, content = text\<rparr>) w;
          w2 = setState (\<lambda>prev. prev\<lparr>isLoading := True\<rparr>) w1;
          w3 = abortCurrent w2;
          ac = controllers w3;
          w4 = newController w3;
          body = \<lparr>message = text, context = contextOf st\<rparr>
      in suspend ac (AwaitChat InSendText) (w4\<lparr>sent := sent w4 @ [ChatCall body ac]\<rparr>))"

text \<open>
  The rest of the \<^verbatim>\<open>try\<close> statement once \<^verbatim>\<open>ApiClient.chat\<close> has settled with
  \<open>result\<close>, the same in both functions but for the fallback text.
\<close>

definition chatSettled ::
  "Origin \<Rightarrow> nat \<Rightarrow> string + AgentChatResponse \<Rightarrow> string \<Rightarrow> Session \<Rightarrow> Session" where
  "chatSettled origin ac result uid w =
     (let w1 = (case result of
                  Inr resp \<Rightarrow> setState (handleAgentResponse resp uid) w
                | Inl err \<Rightarrow> setState (appendMessage (errorMessage origin uid err)) w);
          w2 = setState (\<lambda>prev. prev\<lparr>isLoading := False\<rparr>) w1
      in finish ac w2)"

text \<open>\<^verbatim>\<open>uploadAndSearch\<close> up to its first \<^verbatim>\<open>await\<close>.\<close>

definition uploadAndSearch :: "AgentState \<Rightarrow> File \<Rightarrow> Session \<Rightarrow> Session" where
  "uploadAndSearch st file w =
     (let w1 = setState (\<lambda>prev. prev\<lparr>isLoading := True\<rparr>) w;
          w2 = abortCurrent w1;
          ac = controllers w2;
          w3 = newController w2
      in suspend ac (AwaitUpload st) (w3\<lparr>sent := sent w3 @ [UploadCall file ac]\<rparr>))"

text \<open>
  \<^verbatim>\<open>uploadAndSearch\<close> once \<^verbatim>\<open>ApiClient.uploadImage\<close> has settled: on a failure the
  \<^verbatim>\<open>catch\<close> and \<^verbatim>\<open>finally\<close> branches, on success the statements up to the second
  \<^verbatim>\<open>await\<close>.
\<close>

definition uploadSettled ::
  "AgentState \<Rightarrow> nat \<Rightarrow> string + UploadResponse \<Rightarrow> string \<Rightarrow> Session \<Rightarrow> Session" where
  "uploadSettled st ac result uid w =
     (case result of
        Inl err \<Rightarrow>
          (let w1 = setState (appendMessage (errorMessage InUploadAndSearch uid err)) w;
               w2 = setState (\<lambda>prev. prev\<lparr>isLoading := False\<rparr>) w1
           in finish ac w2)
      | Inr up \<Rightarrow>
          (let w1 = setState (\<lambda>prev. prev\<lparr>lastUploadId := Some (upload_id up)\<rparr>) w;
               marker = ''image:'' @ upload_id up;
               w2 = setState (appendMessage \<lparr>m_id = uid, role = User, content = marker\<rparr>) w1;
               body = \<lparr>message = marker, context = contextOf st\<rparr>
           in suspend ac (AwaitChat InUploadAndSearch)
                (w2\<lparr>sent := sent w2 @ [ChatCall body ac]\<rparr>)))"

text \<open>\<^verbatim>\<open>refineWith\<close>: \<^verbatim>\<open>void sendText(chip)\<close>, for the \<^verbatim>\<open>sendText\<close> its closure holds.\<close>

definition refineWith :: "AgentState Callback \<Rightarrow> string \<Rightarrow> string \<Rightarrow> Session \<Rightarrow> Session" where
  "refineWith sendText_held chip uid w = sendText (env sendText_held) chip uid w"

subsection \<open>Events\<close>

text \<open>
  What can happen to a mounted hook: the presentation layer calls one of the four
  functions the last render returned, or the network settles the \<^verbatim>\<open>fetch\<close> of a
  suspended call (with what \<^verbatim>\<open>fetch\<close> produced, and the identifier the continuation
  draws from \<^verbatim>\<open>crypto.randomUUID()\<close>). A settlement for a call that is not suspended
  at such an \<^verbatim>\<open>await\<close> does not happen: the event is skipped.
\<close>

datatype Event =
    SendText string string
  | RefineWith string string
  | UploadAndSearch File
  | Cancel
  | ChatSettles nat "string + AgentChatResponse Response" string
  | UploadSettles nat "string + UploadResponse Response" string

fun dispatch :: "Event \<Rightarrow> Session \<Rightarrow> Session" where
  "dispatch (SendText text uid) w = sendText (env (sendText_cb (callbacks w))) text uid w"
| "dispatch (RefineWith chip uid) w = refineWith (env (refineWith_cb (callbacks w))) chip uid w"
| "dispatch (UploadAndSearch file) w =
     uploadAndSearch (env (uploadAndSearch_cb (callbacks w))) file w"
| "dispatch Cancel w = cancel w"
| "dispatch (ChatSettles ac fetched uid) w =
     (case map_of (pending w) ac of
        Some (AwaitChat origin) \<Rightarrow> chatSettled origin ac (http fetched) uid w
      | _ \<Rightarrow> w)"
| "dispatch (UploadSettles ac fetched uid) w =
     (case map_of (pending w) ac of
        Some (AwaitUpload st) \<Rightarrow> uploadSettled st ac (http fetched) uid w
      | _ \<Rightarrow> w)"

text \<open>After an event React renders the component again, with the state as it is then.\<close>

definition rerender :: "Session \<Rightarrow> Session" where
  "rerender w =
     w\<lparr>renders := Suc (renders w),
       callbacks := useAgentChat (Suc (renders w)) (state w) (Some (callbacks w))\<rparr>"

definition step :: "Event \<Rightarrow> Session \<Rightarrow> Session" where
  "step ev w = rerender (dispatch ev w)"

fun run :: "Event list \<Rightarrow> Session \<Rightarrow> Session" where
  "run [] w = w"
| "run (ev # evs) w = run evs (step ev w)"

subsection \<open>Notions used to state the properties\<close>

text \<open>
  An event that reduces a successful response carrying a \<^verbatim>\<open>refinements\<close> field.
\<close>

fun supplies_refinements :: "Event \<Rightarrow> bool" where
  "supplies_refinements (ChatSettles ac fetched uid) =
     (case http fetched of Inl err \<Rightarrow> False | Inr resp \<Rightarrow> resp_refinements resp \<noteq> None)"
| "supplies_refinements ev = False"

text \<open>The number a string of decimal digits stands for.\<close>

definition digit_val :: "char \<Rightarrow> nat" where
  "digit_val c = of_char c - 48"

definition decimal_value :: "string \<Rightarrow> nat" where
  "decimal_value s = foldl (\<lambda>a c. 10 * a + digit_val c) 0 s"

text \<open>
  Sample data: a product card with an identifier only, a 200 response whose JSON
  body is \<open>v\<close>, and the rejection of a \<^verbatim>\<open>fetch\<close> whose signal was aborted (the text
  is the browser's; the source only reads it as \<^verbatim>\<open>err.message\<close>).
\<close>

definition card :: "string \<Rightarrow> ProductCard" where
  "card i = \<lparr>p_id = i, title = None, brand = None, image_url = None, price_cents = None,
             currency = None, in_stock = None, url = None, badges = None\<rparr>"

definition answered :: "'a \<Rightarrow> string + 'a Response" where
  "answered v = Inr \<lparr>status = 200, body_text = None, body_json = Inr v\<rparr>"

definition rejected_by_abort :: "string + 'a Response" where
  "rejected_by_abort = Inl ''The operation was aborted.''"

definition welcome_text :: string where
  "welcome_text = ''Hi! I can help you find products. What are you looking for today?''"

section \<open>Properties\<close>

lemmas op_defs = sendText_def refineWith_def uploadAndSearch_def cancel_def chatSettled_def
  uploadSettled_def setState_def abortCurrent_def newController_def suspend_def finish_def

lemmas eval_defs = op_defs step_def rerender_def initialSession_def initialState_def
  useAgentChat_def useCallback_def Let_def appendMessage_def handleAgentResponse_def
  contextOf_def slice_last_def errorMessage_def http_def ok_def
  card_def answered_def rejected_by_abort_def welcome_text_def

subsection \<open>The callbacks never change\<close>

text \<open>
  Every dependency array of the hook bottoms out in \<^verbatim>\<open>appendMessage\<close>, whose own array
  is empty: each render finds the dependencies it found at the first one and returns
  the first render's function objects. The variable \<^verbatim>\<open>state\<close> that \<^verbatim>\<open>sendText\<close> and
  \<^verbatim>\<open>uploadAndSearch\<close> read is therefore the first render's, the initial state.
\<close>

lemma useAgentChat_again:
  "useAgentChat n st (Some (useAgentChat 0 initialState None)) = useAgentChat 0 initialState None"
  by (simp add: useAgentChat_def useCallback_def Let_def)

lemma callbacks_dispatch: "callbacks (dispatch ev w) = callbacks w"
  by (cases ev) (simp_all add: op_defs Let_def split: option.splits Await.splits sum.splits)

lemma state_rerender: "state (rerender w) = state w"
  by (simp add: rerender_def)

lemma callbacks_step:
  "callbacks w = useAgentChat 0 initialState None \<Longrightarrow>
   callbacks (step ev w) = useAgentChat 0 initialState None"
  by (simp add: step_def rerender_def callbacks_dispatch useAgentChat_again)

lemma callbacks_run:
  "callbacks w = useAgentChat 0 initialState None \<Longrightarrow>
   callbacks (run evs w) = useAgentChat 0 initialState None"
  by (induction evs arbitrary: w) (simp_all add: callbacks_step)

lemma callbacks_reachable:
  "callbacks (run evs initialSession) = useAgentChat 0 initialState None"
  by (rule callbacks_run) (simp add: initialSession_def)

lemma env_sendText_first: "env (sendText_cb (useAgentChat 0 initialState None)) = initialState"
  by (simp add: useAgentChat_def useCallback_def Let_def)

lemma env_refineWith_first:
  "env (env (refineWith_cb (useAgentChat 0 initialState None))) = initialState"
  by (simp add: useAgentChat_def useCallback_def Let_def)

lemma env_uploadAndSearch_first:
  "env (uploadAndSearch_cb (useAgentChat 0 initialState None)) = initialState"
  by (simp add: useAgentChat_def useCallback_def Let_def)

lemma contextOf_initialState: "contextOf initialState = [(Assistant, welcome_text)]"
  by (simp add: contextOf_def slice_last_def initialState_def welcome_text_def)

subsection \<open>Suspended calls\<close>

lemma map_of_finish: "map_of (filter (\<lambda>p. fst p \<noteq> ac) xs) ac = None"
  by (induction xs) auto

lemma map_of_suspend: "map_of (filter (\<lambda>p. fst p \<noteq> ac) xs @ [(ac, a)]) ac = Some a"
  by (simp add: map_of_append map_of_finish map_add_def)

lemma state_chat_success:
  "map_of (pending w) ac = Some (AwaitChat origin) \<Longrightarrow> http fetched = Inr resp \<Longrightarrow>
   state (step (ChatSettles ac fetched uid) w) =
     (handleAgentResponse resp uid (state w))\<lparr>isLoading := False\<rparr>"
  by (simp add: step_def rerender_def chatSettled_def setState_def finish_def Let_def)

lemma state_chat_failure:
  "map_of (pending w) ac = Some (AwaitChat origin) \<Longrightarrow> http fetched = Inl err \<Longrightarrow>
   state (step (ChatSettles ac fetched uid) w) =
     (appendMessage (errorMessage origin uid err) (state w))\<lparr>isLoading := False\<rparr>"
  by (simp add: step_def rerender_def chatSettled_def setState_def finish_def Let_def)

text \<open>
  The continuation of a call waiting for \<^verbatim>\<open>ApiClient.chat\<close> holds no test of whether
  its controller is still the current one or has been aborted: however the request
  settles, one message is appended.
\<close>

lemma settlement_appends:
  "map_of (pending w) ac = Some (AwaitChat origin) \<Longrightarrow>
   length (messages (state (step (ChatSettles ac fetched uid) w))) =
     Suc (length (messages (state w)))"
  by (simp add: step_def rerender_def op_defs Let_def appendMessage_def handleAgentResponse_def
        split: sum.splits)

text \<open>While \<^verbatim>\<open>isLoading\<close> is true some call is suspended.\<close>

lemma loading_dispatch:
  "(isLoading (state w) \<longrightarrow> pending w \<noteq> []) \<Longrightarrow>
   isLoading (state (dispatch ev w)) \<longrightarrow> pending (dispatch ev w) \<noteq> []"
  by (cases ev)
     (auto simp: op_defs Let_def appendMessage_def handleAgentResponse_def
           split: option.splits Await.splits sum.splits)

lemma loading_run:
  "(isLoading (state w) \<longrightarrow> pending w \<noteq> []) \<Longrightarrow>
   isLoading (state (run evs w)) \<longrightarrow> pending (run evs w) \<noteq> []"
proof (induction evs arbitrary: w)
  case Nil
  then show ?case by simp
next
  case (Cons ev evs)
  have "isLoading (state (step ev w)) \<longrightarrow> pending (step ev w) \<noteq> []"
    using loading_dispatch [OF Cons.prems, of ev] by (simp add: step_def rerender_def)
  then show ?case using Cons.IH [of "step ev w"] by simp
qed

lemma loading_needs_pending:
  "isLoading (state (run evs initialSession)) \<Longrightarrow> pending (run evs initialSession) \<noteq> []"
  using loading_run [of initialSession evs] by (simp add: initialSession_def initialState_def)

subsection \<open>Messages only grow\<close>

lemma messages_dispatch: "\<exists>ys. messages (state (dispatch ev w)) = messages (state w) @ ys"
  by (cases ev)
     (auto simp: op_defs Let_def appendMessage_def handleAgentResponse_def
           split: option.splits Await.splits sum.splits)

lemma messages_run: "\<exists>ys. messages (state (run evs w)) = messages (state w) @ ys"
proof (induction evs arbitrary: w)
  case Nil
  show ?case by simp
next
  case (Cons ev evs)
  obtain ys where a: "messages (state (step ev w)) = messages (state w) @ ys"
    using messages_dispatch [of ev w] by (auto simp: step_def state_rerender)
  obtain zs where b: "messages (state (run evs (step ev w))) = messages (state (step ev w)) @ zs"
    using Cons.IH [of "step ev w"] by auto
  show ?case using a b by simp
qed

subsection \<open>The reducer\<close>

lemma products_handleAgentResponse:
  "products (handleAgentResponse resp uid prev) =
     (case resp_products resp of None \<Rightarrow> [] | Some ps \<Rightarrow> ps)"
  by (simp add: handleAgentResponse_def appendMessage_def Let_def)

lemma refinements_handleAgentResponse:
  "refinements (handleAgentResponse resp uid prev) =
     (case resp_refinements resp of None \<Rightarrow> refinements prev | Some rs \<Rightarrow> rs)"
  by (simp add: handleAgentResponse_def appendMessage_def Let_def split: option.splits)

lemma refinements_step:
  "\<not> supplies_refinements ev \<Longrightarrow> refinements (state (step ev w)) = refinements (state w)"
  by (cases ev)
     (auto simp: step_def rerender_def op_defs Let_def appendMessage_def handleAgentResponse_def
           split: option.splits Await.splits sum.splits)

lemma refinements_run:
  "\<not> list_ex supplies_refinements evs \<Longrightarrow>
   refinements (state (run evs w)) = refinements (state w)"
  by (induction evs arbitrary: w) (simp_all add: refinements_step)

subsection \<open>Decimal digits\<close>

lemma digit_val_digit_char: "d < 10 \<Longrightarrow> digit_val (digit_char d) = d"
proof -
  assume "d < 10"
  then have "d \<in> {0, 1, 2, 3, 4, 5, 6, 7, 8, 9}" by auto
  then show ?thesis by (auto simp: digit_val_def digit_char_def)
qed

lemma decimal_value_snoc: "decimal_value (s @ [c]) = 10 * decimal_value s + digit_val c"
  by (simp add: decimal_value_def)

lemma decimal_value_string_of_nat: "decimal_value (string_of_nat n) = n"
proof (induction n rule: string_of_nat.induct)
  case (1 n)
  show ?case
  proof (cases "n < 10")
    case True
    then show ?thesis
      by (subst string_of_nat.simps) (simp add: decimal_value_def digit_val_digit_char)
  next
    case False
    then have "decimal_value (string_of_nat (n div 10)) = n div 10"
      using "1.IH" by simp
    then show ?thesis using False
      by (subst string_of_nat.simps) (simp add: decimal_value_snoc digit_val_digit_char)
  qed
qed

section \<open>The claims\<close>

text \<open>
  C1. A turn superseded by a later dispatch, or cancelled by \<^verbatim>\<open>cancel\<close>, should leave
  messages, products and refinements alone when it settles, and never append an
  assistant error message. The code does otherwise. Two turns are dispatched from the
  fresh session; the second aborts the controller of the first (\<open>aborted w = [0]\<close>) and
  takes its place in \<^verbatim>\<open>abortRef\<close>. When the first turn's \<^verbatim>\<open>fetch\<close> then rejects with the
  abort error, the \<^verbatim>\<open>catch\<close> branch of \<^verbatim>\<open>sendText\<close> appends an assistant message with the
  error's text. The same happens after \<^verbatim>\<open>cancel\<close>. Whatever the first turn's \<^verbatim>\<open>fetch\<close>
  produces, its settlement appends one message.
\<close>

theorem superseded_turn_appends_message:
  "(let w = run [SendText ''a'' ''u1'', SendText ''b'' ''u2''] initialSession;
        w' = step (ChatSettles 0 rejected_by_abort ''u3'') w
    in abortRef w = Some 1 \<and> aborted w = [0] \<and>
       map_of (pending w) 0 = Some (AwaitChat InSendText) \<and>
       messages (state w') = messages (state w) @
         [\<lparr>m_id = ''u3'', role = Assistant, content = ''The operation was aborted.''\<rparr>]) \<and>
   (let w = run [SendText ''a'' ''u1'', Cancel] initialSession;
        w' = step (ChatSettles 0 rejected_by_abort ''u3'') w
    in abortRef w = None \<and> aborted w = [0] \<and>
       map_of (pending w) 0 = Some (AwaitChat InSendText) \<and>
       messages (state w') = messages (state w) @
         [\<lparr>m_id = ''u3'', role = Assistant, content = ''The operation was aborted.''\<rparr>]) \<and>
   (let w = run [SendText ''a'' ''u1'', SendText ''b'' ''u2''] initialSession
    in length (messages (state (step (ChatSettles 0 fetched uid) w))) =
         Suc (length (messages (state w))))"
proof -
  have "map_of (pending (run [SendText ''a'' ''u1'', SendText ''b'' ''u2''] initialSession)) 0 =
          Some (AwaitChat InSendText)"
    by (simp add: eval_defs)
  from settlement_appends [OF this, of fetched uid] show ?thesis
    by (simp add: eval_defs)
qed

text \<open>
  C2. The context of a dispatched turn should be the last ten messages of the session
  at dispatch time, as role and content pairs. The code computes
  \<^verbatim>\<open>state.messages.slice(-10)\<close> on the \<^verbatim>\<open>state\<close> of the first render, so every turn
  sends the welcome message alone: for any history and any typed text, and here also
  for a second typed turn and for an upload after one completed turn, where the
  session holds three messages.
\<close>

theorem context_is_first_render_window:
  "sent (step (SendText t uid) (run evs initialSession)) =
     sent (run evs initialSession) @
       [ChatCall \<lparr>message = t, context = [(Assistant, welcome_text)]\<rparr>
          (controllers (run evs initialSession))] \<and>
   (let w = run [SendText ''a'' ''u1'',
                 ChatSettles 0 (answered \<lparr>intent = chitchat, answer = ''hello'',
                   resp_products = None, resp_refinements = None\<rparr>) ''u2''] initialSession;
        w' = step (SendText ''b'' ''u3'') w;
        w'' = run [UploadAndSearch (File ''cat.png''),
                   UploadSettles 1 (answered \<lparr>upload_id = ''abc123'', up_url = ''/uploads/abc123''\<rparr>)
                     ''u3''] w
    in contextOf (state w) = [(Assistant, welcome_text), (User, ''a''), (Assistant, ''hello'')] \<and>
       sent w' = sent w @
         [ChatCall \<lparr>message = ''b'', context = [(Assistant, welcome_text)]\<rparr> 1] \<and>
       sent w'' = sent w @
         [UploadCall (File ''cat.png'') 1,
          ChatCall \<lparr>message = ''image:abc123'', context = [(Assistant, welcome_text)]\<rparr> 1])"
proof -
  have "sent (step (SendText t uid) (run evs initialSession)) =
     sent (run evs initialSession) @
       [ChatCall \<lparr>message = t, context = [(Assistant, welcome_text)]\<rparr>
          (controllers (run evs initialSession))]"
    by (simp add: step_def rerender_def callbacks_reachable env_sendText_first op_defs Let_def
          contextOf_initialState split: option.splits)
  then show ?thesis by (simp add: eval_defs)
qed

text \<open>
  C3. \<^verbatim>\<open>isLoading\<close> should go back to false only when the newest turn settles. In the
  code the \<^verbatim>\<open>finally\<close> branch of every call clears it: after two dispatches the
  settlement of the first, aborted one leaves \<^verbatim>\<open>isLoading\<close> false while the second
  turn, whose controller is the current one and is not aborted, is still suspended
  at its \<^verbatim>\<open>await\<close>.
\<close>

theorem superseded_turn_clears_isLoading:
  "(let w = run [SendText ''a'' ''u1'', SendText ''b'' ''u2''] initialSession;
        w' = step (ChatSettles 0 rejected_by_abort ''u3'') w
    in isLoading (state w) \<and> \<not> isLoading (state w') \<and>
       pending w' = [(1, AwaitChat InSendText)] \<and> abortRef w' = Some 1 \<and> aborted w' = [0])"
  by (simp add: eval_defs)

text \<open>
  C4. When a call suspended at \<^verbatim>\<open>ApiClient.chat\<close> settles with a successful response,
  the products of the session are the response's products when it has them and the
  empty list when it has none, whatever they were before.
\<close>

theorem products_after_response:
  assumes "map_of (pending w) ac = Some (AwaitChat origin)" and "http fetched = Inr resp"
  shows "products (handleAgentResponse resp uid (state w)) =
           (case resp_products resp of None \<Rightarrow> [] | Some ps \<Rightarrow> ps) \<and>
         products (state (step (ChatSettles ac fetched uid) w)) =
           (case resp_products resp of None \<Rightarrow> [] | Some ps \<Rightarrow> ps)"
  using assms by (simp add: state_chat_success products_handleAgentResponse)

theorem products_after_response_witness:
  "(let w = run [SendText ''shoes'' ''u1'',
                 ChatSettles 0 (answered \<lparr>intent = text_recommendation, answer = ''picks'',
                   resp_products = Some [card ''p1''], resp_refinements = None\<rparr>) ''u2'',
                 SendText ''thanks'' ''u3''] initialSession;
        resp = \<lparr>intent = chitchat, answer = ''welcome'',
                resp_products = None, resp_refinements = None\<rparr>
    in map_of (pending w) 1 = Some (AwaitChat InSendText) \<and>
       http (answered resp) = Inr resp \<and>
       products (state w) = [card ''p1''] \<and>
       products (state (step (ChatSettles 1 (answered resp) ''u4'') w)) = [])"
proof -
  define w where "w = run [SendText ''shoes'' ''u1'',
                 ChatSettles 0 (answered \<lparr>intent = text_recommendation, answer = ''picks'',
                   resp_products = Some [card ''p1''], resp_refinements = None\<rparr>) ''u2'',
                 SendText ''thanks'' ''u3''] initialSession"
  define resp where "resp = \<lparr>intent = chitchat, answer = ''welcome'',
                resp_products = None, resp_refinements = None\<rparr>"
  have a: "map_of (pending w) 1 = Some (AwaitChat InSendText)"
    by (simp add: w_def eval_defs)
  have b: "http (answered resp) = Inr resp"
    by (simp add: answered_def http_def ok_def)
  have c: "products (state w) = [card ''p1'']"
    by (simp add: w_def eval_defs)
  have d: "products (state (step (ChatSettles 1 (answered resp) ''u4'') w)) = []"
    using products_after_response [OF a b, of "''u4''"] by (simp add: resp_def)
  show ?thesis
    using a b c d by (simp add: w_def resp_def Let_def)
qed

text \<open>
  C5. When a call suspended at \<^verbatim>\<open>ApiClient.chat\<close> settles with a successful response,
  the refinements of the session are the response's refinements when it has them,
  and are what they were just before when it has none.
\<close>

theorem refinements_after_response:
  assumes "map_of (pending w) ac = Some (AwaitChat origin)" and "http fetched = Inr resp"
  shows "refinements (handleAgentResponse resp uid (state w)) =
           (case resp_refinements resp of None \<Rightarrow> refinements (state w) | Some rs \<Rightarrow> rs) \<and>
         refinements (state (step (ChatSettles ac fetched uid) w)) =
           (case resp_refinements resp of None \<Rightarrow> refinements (state w) | Some rs \<Rightarrow> rs)"
  using assms by (simp add: state_chat_success refinements_handleAgentResponse)

theorem refinements_after_response_witness:
  "(let w = run [SendText ''running shoes under $100'' ''u1'',
                 ChatSettles 0 (answered \<lparr>intent = text_recommendation,
                   answer = ''Here are some picks'',
                   resp_products = Some [card ''a'', card ''b''],
                   resp_refinements = Some [''under $50'']\<rparr>) ''u2'',
                 SendText ''thanks'' ''u3''] initialSession;
        resp = \<lparr>intent = chitchat, answer = ''welcome'',
                resp_products = None, resp_refinements = None\<rparr>
    in map_of (pending w) 1 = Some (AwaitChat InSendText) \<and>
       http (answered resp) = Inr resp \<and>
       refinements (state w) = [''under $50''] \<and>
       refinements (state (step (ChatSettles 1 (answered resp) ''u4'') w)) = [''under $50''])"
proof -
  define w where "w = run [SendText ''running shoes under $100'' ''u1'',
                 ChatSettles 0 (answered \<lparr>intent = text_recommendation,
                   answer = ''Here are some picks'',
                   resp_products = Some [card ''a'', card ''b''],
                   resp_refinements = Some [''under $50'']\<rparr>) ''u2'',
                 SendText ''thanks'' ''u3''] initialSession"
  define resp where "resp = \<lparr>intent = chitchat, answer = ''welcome'',
                resp_products = None, resp_refinements = None\<rparr>"
  have a: "map_of (pending w) 1 = Some (AwaitChat InSendText)"
    by (simp add: w_def eval_defs)
  have b: "http (answered resp) = Inr resp"
    by (simp add: answered_def http_def ok_def)
  have c: "refinements (state w) = [''under $50'']"
    by (simp add: w_def eval_defs)
  have d: "refinements (state (step (ChatSettles 1 (answered resp) ''u4'') w)) = [''under $50'']"
    using refinements_after_response [OF a b, of "''u4''"] c by (simp add: resp_def)
  show ?thesis
    using a b c d by (simp add: w_def resp_def Let_def)
qed

text \<open>
  C6. Over any sequence of events (calls of \<^verbatim>\<open>sendText\<close>, \<^verbatim>\<open>uploadAndSearch\<close>,
  \<^verbatim>\<open>refineWith\<close> and \<^verbatim>\<open>cancel\<close>, and settlements), from any session, the number of
  messages does not decrease and the messages that were there are still there,
  unchanged and at the same positions: the old list is a prefix of the new one.
\<close>

theorem messages_append_only:
  "length (messages (state w)) \<le> length (messages (state (run evs w))) \<and>
   take (length (messages (state w))) (messages (state (run evs w))) = messages (state w)"
  using messages_run [of evs w] by auto

text \<open>
  C7. In every session reachable from the fresh one, \<^verbatim>\<open>refineWith\<close> with a chip label
  does what \<^verbatim>\<open>sendText\<close> does with the same text (and the same identifier drawn for
  the user message): the same session results, and so the same request is sent.
\<close>

theorem refineWith_is_sendText:
  "step (RefineWith s uid) (run evs initialSession) =
     step (SendText s uid) (run evs initialSession) \<and>
   sent (step (RefineWith s uid) (run evs initialSession)) =
     sent (run evs initialSession) @
       [ChatCall \<lparr>message = s, context = contextOf initialState\<rparr>
          (controllers (run evs initialSession))]"
  by (simp add: step_def rerender_def refineWith_def callbacks_reachable env_sendText_first
        env_refineWith_first op_defs Let_def split: option.splits)

text \<open>
  C8. For a call of \<^verbatim>\<open>uploadAndSearch\<close> suspended at the upload: if the upload fails,
  \<^verbatim>\<open>lastUploadId\<close> is left as it was, no request is sent, the call is over, and the one
  message appended is an assistant message with the failure's text, or with
  \<^verbatim>\<open>Upload failed\<close> when the failure has no text. If the upload succeeds, a chat request
  with the marker is sent; if that request then fails, \<^verbatim>\<open>lastUploadId\<close> still holds the
  upload's identifier and the user message with the marker is still in the session,
  followed by the assistant message of the failure. The fallback text of
  \<^verbatim>\<open>uploadAndSearch\<close> is \<^verbatim>\<open>Upload failed\<close> and differs from the one of \<^verbatim>\<open>sendText\<close>: a
  typed turn whose request fails with no text appends \<^verbatim>\<open>Something went wrong\<close>. (A
  failure that carries a text shows that text in both functions.)
\<close>

theorem upload_failure_short_circuits:
  assumes "map_of (pending w) ac = Some (AwaitUpload st)"
  shows "(http fetched = Inl err \<longrightarrow>
            (let w' = step (UploadSettles ac fetched uid) w
             in lastUploadId (state w') = lastUploadId (state w) \<and>
                sent w' = sent w \<and>
                map_of (pending w') ac = None \<and>
                messages (state w') = messages (state w) @
                  [\<lparr>m_id = uid, role = Assistant,
                    content = (if err = [] then ''Upload failed'' else err)\<rparr>])) \<and>
         (http fetched = Inr up \<and> http fetched' = Inl err' \<longrightarrow>
            (let w1 = step (UploadSettles ac fetched uid) w;
                 w2 = step (ChatSettles ac fetched' uid') w1
             in sent w1 = sent w @
                  [ChatCall \<lparr>message = ''image:'' @ upload_id up, context = contextOf st\<rparr> ac] \<and>
                lastUploadId (state w2) = Some (upload_id up) \<and>
                messages (state w2) = messages (state w) @
                  [\<lparr>m_id = uid, role = User, content = ''image:'' @ upload_id up\<rparr>,
                   \<lparr>m_id = uid', role = Assistant,
                    content = (if err' = [] then ''Upload failed'' else err')\<rparr>])) \<and>
         (map_of (pending v) c = Some (AwaitChat InSendText) \<and> http g = Inl e \<longrightarrow>
            messages (state (step (ChatSettles c g u) v)) = messages (state v) @
              [\<lparr>m_id = u, role = Assistant,
                content = (if e = [] then ''Something went wrong'' else e)\<rparr>]) \<and>
         fallback InUploadAndSearch = ''Upload failed'' \<and>
         fallback InSendText = ''Something went wrong'' \<and>
         fallback InUploadAndSearch \<noteq> fallback InSendText"
  using assms
  by (simp add: step_def rerender_def op_defs Let_def appendMessage_def errorMessage_def
        map_of_finish map_of_suspend del: map_of_append)

theorem upload_failure_short_circuits_witness:
  "(let w = run [UploadAndSearch (File ''cat.png'')] initialSession;
        up = \<lparr>upload_id = ''abc123'', up_url = ''/uploads/abc123''\<rparr>;
        failed = Inr \<lparr>status = 500, body_text = Some ''boom'', body_json = Inl []\<rparr>;
        wa = step (UploadSettles 0 (Inl []) ''u1'') w;
        wb = step (ChatSettles 0 failed ''u2'') (step (UploadSettles 0 (answered up) ''u1'') w);
        v = run [SendText ''hi'' ''u0''] initialSession
    in map_of (pending w) 0 = Some (AwaitUpload initialState) \<and>
       http (Inl [] :: string + UploadResponse Response) = Inl [] \<and>
       lastUploadId (state wa) = None \<and>
       sent wa = [UploadCall (File ''cat.png'') 0] \<and>
       messages (state wa) = messages initialState @
         [\<lparr>m_id = ''u1'', role = Assistant, content = ''Upload failed''\<rparr>] \<and>
       http (answered up) = Inr up \<and>
       http failed = Inl ''boom'' \<and>
       lastUploadId (state wb) = Some ''abc123'' \<and>
       messages (state wb) = messages initialState @
         [\<lparr>m_id = ''u1'', role = User, content = ''image:abc123''\<rparr>,
          \<lparr>m_id = ''u2'', role = Assistant, content = ''boom''\<rparr>] \<and>
       map_of (pending v) 0 = Some (AwaitChat InSendText) \<and>
       http (Inl [] :: string + AgentChatResponse Response) = Inl [] \<and>
       messages (state (step (ChatSettles 0 (Inl []) ''u3'') v)) = messages initialState @
         [\<lparr>m_id = ''u0'', role = User, content = ''hi''\<rparr>,
          \<lparr>m_id = ''u3'', role = Assistant, content = ''Something went wrong''\<rparr>] \<and>
       ''Upload failed'' \<noteq> ''Something went wrong'')"
proof -
  let ?w = "run [UploadAndSearch (File ''cat.png'')] initialSession"
  let ?v = "run [SendText ''hi'' ''u0''] initialSession"
  let ?up = "\<lparr>upload_id = ''abc123'', up_url = ''/uploads/abc123''\<rparr>"
  let ?failed = "Inr \<lparr>status = 500, body_text = Some ''boom'', body_json = Inl []\<rparr>
                   :: string + AgentChatResponse Response"
  have a: "map_of (pending ?w) 0 = Some (AwaitUpload initialState)"
    by (simp add: step_def rerender_def op_defs Let_def initialSession_def
          env_uploadAndSearch_first)
  have b: "http (Inl [] :: string + UploadResponse Response) = Inl []"
    by (simp add: http_def)
  have c: "http (answered ?up) = Inr ?up"
    by (simp add: answered_def http_def ok_def)
  have d: "http ?failed = Inl ''boom''"
    by (simp add: http_def ok_def)
  have s: "lastUploadId (state ?w) = None" "sent ?w = [UploadCall (File ''cat.png'') 0]"
    "messages (state ?w) = messages initialState"
    by (simp_all add: step_def rerender_def op_defs Let_def initialSession_def initialState_def)
  have t: "lastUploadId (state (step (UploadSettles 0 (Inl []) ''u1'') ?w)) = None \<and>
           sent (step (UploadSettles 0 (Inl []) ''u1'') ?w) = [UploadCall (File ''cat.png'') 0] \<and>
           messages (state (step (UploadSettles 0 (Inl []) ''u1'') ?w)) = messages initialState @
             [\<lparr>m_id = ''u1'', role = Assistant, content = ''Upload failed''\<rparr>]"
    using upload_failure_short_circuits
            [OF a, where fetched = "Inl []" and err = "[]" and uid = "''u1''", THEN conjunct1] b s
    by (simp add: Let_def)
  have u: "lastUploadId (state (step (ChatSettles 0 ?failed ''u2'')
                                 (step (UploadSettles 0 (answered ?up) ''u1'') ?w))) =
             Some ''abc123'' \<and>
           messages (state (step (ChatSettles 0 ?failed ''u2'')
                             (step (UploadSettles 0 (answered ?up) ''u1'') ?w))) =
             messages initialState @
               [\<lparr>m_id = ''u1'', role = User, content = ''image:abc123''\<rparr>,
                \<lparr>m_id = ''u2'', role = Assistant, content = ''boom''\<rparr>]"
    using upload_failure_short_circuits
            [OF a, where fetched = "answered ?up" and up = ?up and uid = "''u1''"
               and fetched' = ?failed and err' = "''boom''" and uid' = "''u2''",
             THEN conjunct2, THEN conjunct1]
          c d s
    by (simp add: Let_def)
  have a': "map_of (pending ?v) 0 = Some (AwaitChat InSendText)"
    by (simp add: step_def rerender_def op_defs Let_def initialSession_def)
  have b': "http (Inl [] :: string + AgentChatResponse Response) = Inl []"
    by (simp add: http_def)
  have s': "messages (state ?v) =
              messages initialState @ [\<lparr>m_id = ''u0'', role = User, content = ''hi''\<rparr>]"
    by (simp add: step_def rerender_def op_defs Let_def initialSession_def appendMessage_def)
  have x: "messages (state (step (ChatSettles 0 (Inl []) ''u3'') ?v)) = messages initialState @
             [\<lparr>m_id = ''u0'', role = User, content = ''hi''\<rparr>,
              \<lparr>m_id = ''u3'', role = Assistant, content = ''Something went wrong''\<rparr>]"
    using upload_failure_short_circuits
            [OF a, where v = ?v and c = 0 and g = "Inl []" and e = "[]" and u = "''u3''",
             THEN conjunct2, THEN conjunct2, THEN conjunct1]
          a' b' s'
    by simp
  have y: "''Upload failed'' \<noteq> ''Something went wrong''"
    using upload_failure_short_circuits [OF a, THEN conjunct2, THEN conjunct2, THEN conjunct2]
    by simp
  show ?thesis
    unfolding Let_def using a b c d t u a' b' x y by blast
qed

text \<open>
  C9. When \<^verbatim>\<open>fetch\<close> answers with a status outside 200 to 299, \<^verbatim>\<open>http\<close> fails, with the
  body text as message when the text can be read and is not empty, and otherwise
  with \<^verbatim>\<open>Request failed: \<close> followed by the decimal digits of the status; when the
  status is within 200 to 299 the result is what reading the body as JSON gives.
  \<^verbatim>\<open>chat\<close>, \<^verbatim>\<open>uploadImage\<close> and \<^verbatim>\<open>getProduct\<close> return what \<^verbatim>\<open>http\<close> returns for the
  answer to their request.
\<close>

theorem non_2xx_is_failure:
  "(\<not> ok res \<longrightarrow>
      http (Inr res) =
        Inl (case body_text res of
               Some (c # cs) \<Rightarrow> c # cs
             | _ \<Rightarrow> ''Request failed: '' @ string_of_nat (status res))) \<and>
   (ok res \<longrightarrow> http (Inr res) = body_json res) \<and>
   decimal_value (string_of_nat (status res)) = status res \<and>
   chat (\<lambda>rq. Inr rc) body sg = http (Inr rc) \<and>
   uploadImage (\<lambda>rq. Inr ru) file sg = http (Inr ru) \<and>
   getProduct (\<lambda>rq. Inr rp) isServer env_base productId sg = http (Inr rp)"
  by (simp add: http_def chat_def uploadImage_def getProduct_def Let_def
        decimal_value_string_of_nat split: option.splits list.splits)

theorem non_2xx_is_failure_witness:
  "(let r404 = \<lparr>status = 404, body_text = Some [], body_json = Inl ''Unexpected token''\<rparr>;
        r500 = \<lparr>status = 500, body_text = Some ''boom'', body_json = Inl ''Unexpected token''\<rparr>;
        r200 = \<lparr>status = 200, body_text = None,
                body_json = Inr \<lparr>upload_id = ''abc123'', up_url = ''/uploads/abc123''\<rparr>\<rparr>
    in \<not> ok r404 \<and> http (Inr r404) = (Inl ''Request failed: 404'' :: string + UploadResponse) \<and>
       \<not> ok r500 \<and> http (Inr r500) = (Inl ''boom'' :: string + UploadResponse) \<and>
       ok r200 \<and>
       http (Inr r200) = Inr \<lparr>upload_id = ''abc123'', up_url = ''/uploads/abc123''\<rparr>)"
proof -
  define r404 :: "UploadResponse Response"
    where "r404 = \<lparr>status = 404, body_text = Some [], body_json = Inl ''Unexpected token''\<rparr>"
  define r500 :: "UploadResponse Response"
    where "r500 = \<lparr>status = 500, body_text = Some ''boom'', body_json = Inl ''Unexpected token''\<rparr>"
  define r200 :: "UploadResponse Response"
    where "r200 = \<lparr>status = 200, body_text = None,
                body_json = Inr \<lparr>upload_id = ''abc123'', up_url = ''/uploads/abc123''\<rparr>\<rparr>"
  have a: "\<not> ok r404" "\<not> ok r500" "ok r200"
    by (simp_all add: ok_def r404_def r500_def r200_def)
  have n: "string_of_nat 404 = ''404''"
    by (simp add: string_of_nat.simps digit_char_def)
  have "http (Inr r404) = Inl ''Request failed: 404''"
    using non_2xx_is_failure [of r404, THEN conjunct1] a n by (simp add: r404_def)
  moreover have "http (Inr r500) = Inl ''boom''"
    using non_2xx_is_failure [of r500, THEN conjunct1] a by (simp add: r500_def)
  moreover have "http (Inr r200) = Inr \<lparr>upload_id = ''abc123'', up_url = ''/uploads/abc123''\<rparr>"
    using non_2xx_is_failure [of r200, THEN conjunct2, THEN conjunct1] a by (simp add: r200_def)
  ultimately show ?thesis
    using a by (simp add: Let_def r404_def r500_def r200_def)
qed

text \<open>
  C10. The fresh session holds the one assistant welcome message with identifier
  \<^verbatim>\<open>m-welcome\<close>, no products, the three default chips, \<^verbatim>\<open>isLoading\<close> false and no
  \<^verbatim>\<open>lastUploadId\<close>; nothing is in flight. As long as no successful response carrying
  refinements has been reduced, the refinements are still the three default chips.
\<close>

theorem fresh_session:
  "state initialSession =
     \<lparr>messages = [\<lparr>m_id = ''m-welcome'', role = Assistant, content = welcome_text\<rparr>],
      products = [],
      refinements = [''recommendations'', ''image search'', ''product details''],
      isLoading = False, lastUploadId = None\<rparr> \<and>
   pending initialSession = [] \<and> abortRef initialSession = None \<and>
   (\<not> list_ex supplies_refinements evs \<longrightarrow>
      refinements (state (run evs initialSession)) =
        [''recommendations'', ''image search'', ''product details''])"
  by (simp add: refinements_run) (simp add: initialSession_def initialState_def welcome_text_def)

theorem fresh_session_witness:
  "(let evs = [SendText ''hi'' ''u1'',
               ChatSettles 0 (answered \<lparr>intent = chitchat, answer = ''hello'',
                 resp_products = None, resp_refinements = None\<rparr>) ''u2'',
               UploadAndSearch (File ''cat.png''),
               UploadSettles 1 rejected_by_abort ''u3'']
    in \<not> list_ex supplies_refinements evs \<and>
       refinements (state (run evs initialSession)) =
         [''recommendations'', ''image search'', ''product details''])"
proof -
  define evs where "evs = [SendText ''hi'' ''u1'',
               ChatSettles 0 (answered \<lparr>intent = chitchat, answer = ''hello'',
                 resp_products = None, resp_refinements = None\<rparr>) ''u2'',
               UploadAndSearch (File ''cat.png''),
               UploadSettles 1 rejected_by_abort ''u3'']"
  have a: "\<not> list_ex supplies_refinements evs"
    by (simp add: evs_def answered_def http_def ok_def)
  have "refinements (state (run evs initialSession)) =
         [''recommendations'', ''image search'', ''product details'']"
    using fresh_session [of evs] a by simp
  then show ?thesis
    using a by (simp add: Let_def evs_def)
qed

end
